theory Spec2Isabelle
  imports Main "HOL-Library.AList"
begin

section \<open>JavaScript strings\<close>

text \<open>
  The string methods the two source files call, on \<open>string\<close> (ASCII text).
  \<open>startsWith\<close> is \<open>String.prototype.startsWith\<close>, \<open>includes_js\<close> is
  \<open>String.prototype.includes\<close>, \<open>split_js\<close> is \<open>String.prototype.split\<close> with a
  string separator and no limit, \<open>join\<close> is \<open>Array.prototype.join\<close> on an array of
  strings.
\<close>

definition startsWith :: "string \<Rightarrow> string \<Rightarrow> bool" where
  "startsWith s pre = (take (length pre) s = pre)"

fun includes_js :: "string \<Rightarrow> string \<Rightarrow> bool" where
  "includes_js [] sub = (sub = [])"
| "includes_js (c # cs) sub = (startsWith (c # cs) sub \<or> includes_js cs sub)"

text \<open>
  \<open>split_from sep acc s\<close> scans \<open>s\<close> from the left; \<open>acc\<close> is the piece read so far.
  At every occurrence of the (non-empty) separator the piece is closed and the scan
  goes on behind the separator, so occurrences do not overlap.
\<close>

fun split_from :: "string \<Rightarrow> string \<Rightarrow> string \<Rightarrow> string list" where
  "split_from sep acc [] = [acc]"
| "split_from sep acc (c # cs) =
     (if sep \<noteq> [] \<and> startsWith (c # cs) sep
      then acc # split_from sep [] (drop (length sep) (c # cs))
      else split_from sep (acc @ [c]) cs)"

definition split_js :: "string \<Rightarrow> string \<Rightarrow> string list" where
  "split_js s sep = (if sep = [] then map (\<lambda>c. [c]) s else split_from sep [] s)"

fun join :: "string list \<Rightarrow> string \<Rightarrow> string" where
  "join [] sep = []"
| "join [x] sep = x"
| "join (x # y # ys) sep = x @ sep @ join (y # ys) sep"


section \<open>Errors\<close>

text \<open>
  The source declares no error classes. What it raises is a plain \<open>Error\<close> with a
  message (\<open>_mustBeDefined\<close>), and what the JavaScript runtime raises on its behalf:
  a \<open>TypeError\<close> (a property read or a method call on \<open>undefined\<close> or \<open>null\<close>,
  \<open>Object.assign\<close> on such a target, an assignment to a read-only property) and a
  \<open>SyntaxError\<close> (\<open>JSON.parse\<close> on malformed text). A rejected promise is the
  same \<open>Inl\<close> as a synchronous throw.
\<close>

datatype error = TypeError | SyntaxError | Error string

section \<open>Cluster connection strings (lib/cluster.js)\<close>

text \<open>
  \<open>Number(port)\<close> on the text behind the colon. A string of at most fifteen decimal
  digits converts to the integer it spells (the empty string to 0), exactly. Every
  other string is kept uninterpreted as \<open>NotDecimal\<close>: signs, exponents, hexadecimal,
  blanks, \<open>NaN\<close> and digit strings too long for an exact double are outside this model.
\<close>

datatype jsnumber = Integer nat | NotDecimal string

definition isDigit :: "char \<Rightarrow> bool" where
  "isDigit c = (c \<in> set ''0123456789'')"

definition digitVal :: "char \<Rightarrow> nat" where
  "digitVal c = of_char c - 48"

definition decimal :: "string \<Rightarrow> nat" where
  "decimal s = foldl (\<lambda>n c. 10 * n + digitVal c) 0 s"

definition Number :: "string \<Rightarrow> jsnumber" where
  "Number s =
     (if list_all isDigit s \<and> length s \<le> 15 then Integer (decimal s) else NotDecimal s)"

text \<open>One node: \<open>{ host }\<close> or \<open>{ host, port }\<close>.\<close>

record cluster_host =
  host :: string
  port :: "jsnumber option"

text \<open>The object \<open>{ hosts, password }\<close> that \<open>parseURL\<close> returns; \<open>None\<close> is \<open>null\<close>.\<close>

record cluster_config =
  hosts :: "cluster_host list"
  password :: "string option"

text \<open>
  The body of the \<open>forEach\<close> callback for a non-empty segment \<open>h\<close>. The
  destructuring \<open>[ip, port] = h.split(':')\<close> reads the first two pieces; a segment
  that includes a colon always splits into at least two (lemma \<open>split_includes\<close>),
  so the last two branches are never taken (there \<open>port\<close> would be \<open>undefined\<close>
  and \<open>Number(undefined)\<close> is \<open>NaN\<close>).
\<close>

definition parseHost :: "string \<Rightarrow> cluster_host" where
  "parseHost h =
     (if includes_js h '':''
      then (case split_js h '':'' of
              ip # portText # _ \<Rightarrow> \<lparr>host = ip, port = Some (Number portText)\<rparr>
            | [ip] \<Rightarrow> \<lparr>host = ip, port = Some (NotDecimal ''undefined'')\<rparr>
            | [] \<Rightarrow> \<lparr>host = [], port = Some (NotDecimal ''undefined'')\<rparr>)
      else \<lparr>host = h, port = None\<rparr>)"

text \<open>
  \<open>Object.values(url1.split(',')).forEach(...)\<close>: the segments in order, an empty
  segment skipped by \<open>if (!h) return\<close>, every other one pushed as a node.
\<close>

definition hostsOf :: "string \<Rightarrow> cluster_host list" where
  "hostsOf url1 = map parseHost (filter (\<lambda>h. h \<noteq> []) (split_js url1 '',''))"

definition isCluster :: "string \<Rightarrow> bool" where
  "isCluster url = includes_js url ''cluster://''"

text \<open>
  \<open>url.split('cluster://')[1]\<close> is \<open>undefined\<close> when the marker does not occur, and
  the call \<open>url1.includes('@')\<close> then raises a \<open>TypeError\<close>. With the marker it is the
  text between its first and its second occurrence. \<open>[p, hh] = url1.split('@')\<close>
  reads the first two pieces; \<open>password.substring(1)\<close> drops the leading colon.
\<close>

definition parseURL :: "string \<Rightarrow> error + cluster_config" where
  "parseURL url =
     (case split_js url ''cluster://'' of
        _ # url1 # _ \<Rightarrow>
          (if includes_js url1 ''@''
           then (case split_js url1 ''@'' of
                   p # hh # _ \<Rightarrow>
                     Inr \<lparr>hosts = hostsOf hh,
                          password = Some (if startsWith p '':'' then drop 1 p else p)\<rparr>
                 | _ \<Rightarrow> Inl TypeError)
           else Inr \<lparr>hosts = hostsOf url1, password = None\<rparr>)
      | _ \<Rightarrow> Inl TypeError)"

subsection \<open>The earlier variant of \<open>parseURL\<close>\<close>

text \<open>
  The sources carry a second, earlier variant of \<open>lib/cluster.js\<close>, in which every
  segment has its own \<open>password@\<close> prefix and the result is the plain array of
  nodes. There \<open>target\<close> stays \<open>null\<close> for a segment without \<open>@\<close>, and
  \<open>target.includes(':')\<close> raises a \<open>TypeError\<close>, which ends the \<open>forEach\<close>. An
  empty segment is not skipped.
\<close>

record legacy_host =
  node_password :: "string option"
  node_host :: string
  node_port :: "jsnumber option"

definition parseHost_legacy :: "string \<Rightarrow> error + legacy_host" where
  "parseHost_legacy h =
     (if includes_js h ''@''
      then (case split_js h ''@'' of
              s0 # target # _ \<Rightarrow>
                (if includes_js target '':''
                 then (case split_js target '':'' of
                         ip # portText # _ \<Rightarrow>
                           Inr \<lparr>node_password = Some s0, node_host = ip,
                                node_port = Some (Number portText)\<rparr>
                       | [ip] \<Rightarrow>
                           Inr \<lparr>node_password = Some s0, node_host = ip,
                                node_port = Some (NotDecimal ''undefined'')\<rparr>
                       | [] \<Rightarrow>
                           Inr \<lparr>node_password = Some s0, node_host = [],
                                node_port = Some (NotDecimal ''undefined'')\<rparr>)
                 else Inr \<lparr>node_password = Some s0, node_host = target, node_port = None\<rparr>)
            | _ \<Rightarrow> Inl TypeError)
      else Inl TypeError)"

fun parseHosts_legacy :: "string list \<Rightarrow> error + legacy_host list" where
  "parseHosts_legacy [] = Inr []"
| "parseHosts_legacy (h # hs) =
     (case parseHost_legacy h of
        Inl e \<Rightarrow> Inl e
      | Inr n \<Rightarrow>
          (case parseHosts_legacy hs of
             Inl e \<Rightarrow> Inl e
           | Inr ns \<Rightarrow> Inr (n # ns)))"

definition parseURL_legacy :: "string \<Rightarrow> error + legacy_host list" where
  "parseURL_legacy url =
     (case split_js url ''cluster://'' of
        _ # url0 # _ \<Rightarrow> parseHosts_legacy (split_js url0 '','')
      | _ \<Rightarrow> Inl TypeError)"

section \<open>Choosing the topology (lib/index.js, constructor helpers)\<close>

text \<open>
  \<open>_mustBeDefined\<close> is called as a template tag, so \<open>missing\<close> is the one-element
  array of the template's text and prints as that text.
\<close>

definition mustBeDefined :: "string \<Rightarrow> error" where
  "mustBeDefined missing = Error (missing @ '' must be defined'')"

text \<open>
  \<open>options.redisURI || process.env.CONFIGURABLE_PROXY_REDIS_URI || _mustBeDefined...\<close>:
  \<open>None\<close> is \<open>undefined\<close>, and the empty string is falsy like it.
\<close>

definition getRedisUri :: "string option \<Rightarrow> string option \<Rightarrow> error + string" where
  "getRedisUri redisURI envURI =
     (let missing = Inl (mustBeDefined ''CONFIGURABLE_PROXY_REDIS_URI environment variable'');
          fromEnv = (case envURI of
                       None \<Rightarrow> missing
                     | Some e \<Rightarrow> if e \<noteq> [] then Inr e else missing)
      in case redisURI of
           None \<Rightarrow> fromEnv
         | Some u \<Rightarrow> if u \<noteq> [] then Inr u else fromEnv)"

text \<open>
  What \<open>_getRedisConfiguration\<close> returns: the cluster object, the sentinel object or
  the URI itself. \<open>lib/sentinel.js\<close> is not among the sources, so its two functions
  \<open>isSentinel\<close> and \<open>parseURL\<close> are parameters (\<open>isSentinel\<close>, \<open>sentinelParseURL\<close>),
  the second with any result type \<open>'s\<close>.
\<close>

datatype 's configuration = Cluster cluster_config | Sentinel 's | Standalone string

definition getRedisConfiguration ::
  "(string \<Rightarrow> bool) \<Rightarrow> (string \<Rightarrow> 's) \<Rightarrow> string option \<Rightarrow> string option
     \<Rightarrow> error + 's configuration" where
  "getRedisConfiguration isSentinel sentinelParseURL redisURI envURI =
     (case getRedisUri redisURI envURI of
        Inl e \<Rightarrow> Inl e
      | Inr url \<Rightarrow>
          if isCluster url
          then (case parseURL url of Inl e \<Rightarrow> Inl e | Inr c \<Rightarrow> Inr (Cluster c))
          else if isSentinel url then Inr (Sentinel (sentinelParseURL url))
          else Inr (Standalone url))"

section \<open>JavaScript values\<close>

text \<open>
  The values a route, a stored document or a field of one can be. \<open>Num\<close> carries
  integers only (no \<open>NaN\<close>, no fractions), \<open>Date\<close> carries the time value in
  milliseconds (\<open>None\<close> is Invalid Date), \<open>Obj\<close> is a plain object as the list of its
  own enumerable properties in insertion order. \<open>Boxed v ps\<close> is the object
  \<open>ToObject(v)\<close> of a primitive or a date \<open>v\<close> carrying the extra own properties
  \<open>ps\<close>: what \<open>Object.assign\<close> returns when its target is not a plain object.
  Arrays, functions and symbols are not modelled.
\<close>

datatype jsval =
    Undefined
  | Null
  | Bool bool
  | Num int
  | Str string
  | Date "int option"
  | Obj "(string \<times> jsval) list"
  | Boxed jsval "(string \<times> jsval) list"

text \<open>\<open>ToBoolean\<close>: what \<open>item ? a : b\<close>, \<open>!item\<close> and \<open>a && b\<close> test.\<close>

fun truthy :: "jsval \<Rightarrow> bool" where
  "truthy Undefined = False"
| "truthy Null = False"
| "truthy (Bool b) = b"
| "truthy (Num n) = (n \<noteq> 0)"
| "truthy (Str s) = (s \<noteq> [])"
| "truthy (Date d) = True"
| "truthy (Obj fs) = True"
| "truthy (Boxed v ps) = True"

text \<open>\<open>o[k]\<close> on the own properties of an object: \<open>undefined\<close> when there is none.\<close>

definition lookup :: "(string \<times> jsval) list \<Rightarrow> string \<Rightarrow> jsval" where
  "lookup fs k = (case map_of fs k of None \<Rightarrow> Undefined | Some v \<Rightarrow> v)"

text \<open>
  \<open>item.last_activity\<close>. Reading a property of \<open>undefined\<close> or \<open>null\<close> raises a
  \<open>TypeError\<close>; a primitive or a date has no property of that name, and neither has a
  prototype.
\<close>

fun last_activity :: "jsval \<Rightarrow> error + jsval" where
  "last_activity Undefined = Inl TypeError"
| "last_activity Null = Inl TypeError"
| "last_activity (Obj fs) = Inr (lookup fs ''last_activity'')"
| "last_activity (Boxed v ps) = Inr (lookup ps ''last_activity'')"
| "last_activity v = Inr Undefined"

text \<open>The decimal numeral of an array index, for the index properties of a string.\<close>

fun showNat :: "nat \<Rightarrow> string" where
  "showNat n =
     (if n < 10 then [char_of (48 + n)]
      else showNat (n div 10) @ [char_of (48 + n mod 10)])"

declare showNat.simps [simp del]

text \<open>
  The own enumerable string-keyed properties \<open>Object.assign\<close> copies from a source:
  the fields of an object, the characters of a string under their indices, nothing
  for \<open>undefined\<close>, \<open>null\<close>, a boolean, a number or a date.
\<close>

fun ownProps :: "jsval \<Rightarrow> (string \<times> jsval) list" where
  "ownProps (Obj fs) = fs"
| "ownProps (Str s) = map (\<lambda>(i, c). (showNat i, Str [c])) (List.enumerate 0 s)"
| "ownProps (Boxed v ps) = ownProps v @ ps"
| "ownProps v = []"

text \<open>\<open>to[k] = v\<close> for each property in turn: an existing key keeps its place.\<close>

definition assignProps :: "(string \<times> jsval) list \<Rightarrow> (string \<times> jsval) list \<Rightarrow> (string \<times> jsval) list" where
  "assignProps to from = foldl (\<lambda>acc (k, v). AList.update k v acc) to from"

text \<open>
  The properties of a target that cannot be written: the indices and the length of a
  string (of a String object). Writing one through \<open>Object.assign\<close> raises a
  \<open>TypeError\<close>.
\<close>

fun readOnly :: "jsval \<Rightarrow> string \<Rightarrow> bool" where
  "readOnly (Str s) k = (k = ''length'' \<or> k \<in> set (map showNat [0..<length s]))"
| "readOnly (Boxed v ps) k = readOnly v k"
| "readOnly v k = False"

text \<open>
  \<open>Object.assign(target, source)\<close> with one source. It raises a \<open>TypeError\<close> on an
  \<open>undefined\<close> or \<open>null\<close> target, and otherwise returns the target object itself
  with the source's properties written over its own.
\<close>

fun Object_assign :: "jsval \<Rightarrow> jsval \<Rightarrow> error + jsval" where
  "Object_assign Undefined source = Inl TypeError"
| "Object_assign Null source = Inl TypeError"
| "Object_assign (Obj fs) source = Inr (Obj (assignProps fs (ownProps source)))"
| "Object_assign (Boxed v ps) source =
     (if list_ex (\<lambda>(k, x). readOnly v k) (ownProps source) then Inl TypeError
      else Inr (Boxed v (assignProps ps (ownProps source))))"
| "Object_assign (Date d) source =
     (if ownProps source = [] then Inr (Date d)
      else Inr (Boxed (Date d) (assignProps [] (ownProps source))))"
| "Object_assign v source =
     (if list_ex (\<lambda>(k, x). readOnly v k) (ownProps source) then Inl TypeError
      else Inr (Boxed v (assignProps [] (ownProps source))))"

section \<open>What the module takes from outside\<close>

text \<open>
  Four functions the module calls and does not define:
  \<^item> \<open>normalizeUrl\<close>, the package \<open>normalize-url\<close>;
  \<^item> \<open>JSON_parse\<close>, \<open>JSON.parse\<close>, which raises a \<open>SyntaxError\<close> on malformed text;
  \<^item> \<open>JSON_stringify\<close>, \<open>JSON.stringify\<close>, called on truthy values only, where it
    returns a string for every value of \<open>jsval\<close>;
  \<^item> \<open>newDate\<close>, the time value of \<open>new Date(x)\<close> (\<open>None\<close> for Invalid Date).
  They are the fields of a \<open>platform\<close>, which every operation takes as its first
  argument; a theorem says what it needs of them.
\<close>

record platform =
  normalizeUrl :: "string \<Rightarrow> string"
  JSON_parse :: "string \<Rightarrow> error + jsval"
  JSON_stringify :: "jsval \<Rightarrow> string"
  newDate :: "jsval \<Rightarrow> int option"

text \<open>\<open>require('path').sep\<close>, on a POSIX system.\<close>

definition pathSep :: string where
  "pathSep = ''/''"

section \<open>The Redis hash\<close>

text \<open>
  All routes live in one Redis hash, the one named by \<open>REDIS_KEY_PREFIX\<close>. It is
  modelled as the list of its fields with their values, every field once. \<open>hget\<close>
  answers \<open>null\<close> (\<open>None\<close>) for a missing field; \<open>hset\<close> creates or replaces a
  field; \<open>hdel\<close> of a missing field does nothing. The client (ioredis) sends an
  \<open>undefined\<close> argument as the empty string (\<open>toArg\<close>). A failing connection is not
  modelled.
\<close>

definition REDIS_KEY_PREFIX :: string where
  "REDIS_KEY_PREFIX = ''configurable-proxy-redis-storage''"

type_synonym hash = "(string \<times> string) list"

definition toArg :: "string option \<Rightarrow> string" where
  "toArg v = (case v of None \<Rightarrow> [] | Some s \<Rightarrow> s)"

definition hget :: "hash \<Rightarrow> string \<Rightarrow> string option" where
  "hget h key = map_of h key"

definition hset :: "hash \<Rightarrow> string \<Rightarrow> string option \<Rightarrow> hash" where
  "hset h key v = AList.update key (toArg v) h"

definition hdel :: "hash \<Rightarrow> string \<Rightarrow> hash" where
  "hdel h key = AList.delete key h"

definition hkeys :: "hash \<Rightarrow> string list" where
  "hkeys h = map fst h"

definition hgetall :: "hash \<Rightarrow> (string \<times> string) list" where
  "hgetall h = h"

text \<open>
  \<open>redis.multi()\<close> queues commands and \<open>multi.exec()\<close> sends the queue as one
  transaction, which runs the commands in order.
\<close>

datatype command = HDEL string

fun run :: "command \<Rightarrow> hash \<Rightarrow> hash" where
  "run (HDEL key) h = hdel h key"

definition exec :: "command list \<Rightarrow> hash \<Rightarrow> hash" where
  "exec multi h = fold run multi h"

section \<open>The storage class (lib/index.js)\<close>

text \<open>
  \<open>_expandLastActivity\<close>: the item as it is when \<open>item.last_activity\<close> is falsy,
  otherwise the item with that field replaced by \<open>new Date(item.last_activity)\<close>.
\<close>

definition expandLastActivity :: "platform \<Rightarrow> jsval \<Rightarrow> error + jsval" where
  "expandLastActivity P item =
     (case last_activity item of
        Inl e \<Rightarrow> Inl e
      | Inr la \<Rightarrow>
          if \<not> truthy la then Inr item
          else Object_assign item (Obj [(''last_activity'', Date (newDate P la))]))"

text \<open>
  \<open>_expand\<close> takes what Redis answered: \<open>null\<close> (\<open>None\<close>) or a string. Both
  \<open>null\<close> and the empty string are falsy and give \<open>undefined\<close>.
\<close>

definition expand :: "platform \<Rightarrow> string option \<Rightarrow> error + jsval" where
  "expand P item =
     (case item of
        None \<Rightarrow> Inr Undefined
      | Some s \<Rightarrow>
          if s = [] then Inr Undefined
          else (case JSON_parse P s of
                  Inl e \<Rightarrow> Inl e
                | Inr v \<Rightarrow> expandLastActivity P v))"

text \<open>\<open>_scrub\<close>: \<open>None\<close> is \<open>undefined\<close>.\<close>

definition scrub :: "platform \<Rightarrow> jsval \<Rightarrow> string option" where
  "scrub P item = (if truthy item then Some (JSON_stringify P item) else None)"

text \<open>
  \<open>cleanPath\<close>: a path is a string or \<open>undefined\<close> (\<open>None\<close>); \<open>undefined\<close> and the
  empty string are falsy.
\<close>

definition cleanPath :: "platform \<Rightarrow> string option \<Rightarrow> string" where
  "cleanPath P path =
     (case path of
        None \<Rightarrow> pathSep
      | Some s \<Rightarrow> if s \<noteq> [] \<and> s \<noteq> pathSep then normalizeUrl P s else pathSep)"

text \<open>
  \<open>_getKeyPaths\<close>: the callback of \<open>map\<close> gets each part with its index and the
  whole array; the template puts a literal slash before the part.
\<close>

definition getKeyPaths :: "platform \<Rightarrow> string option \<Rightarrow> string list" where
  "getKeyPaths P path =
     (let arr = split_js (cleanPath P path) pathSep
      in rev (map (\<lambda>(index, part). join (take index arr) pathSep @ ''/'' @ part)
                  (List.enumerate 0 arr)))"

definition get :: "platform \<Rightarrow> hash \<Rightarrow> string option \<Rightarrow> error + jsval" where
  "get P h path = (let key = cleanPath P path in expand P (hget h key))"

definition add :: "platform \<Rightarrow> hash \<Rightarrow> string option \<Rightarrow> jsval \<Rightarrow> hash" where
  "add P h path data = (let key = cleanPath P path in hset h key (scrub P data))"

definition remove :: "platform \<Rightarrow> hash \<Rightarrow> string option \<Rightarrow> hash" where
  "remove P h path = (let key = cleanPath P path in hdel h key)"

text \<open>
  \<open>update\<close> hands the cleaned key to \<open>get\<close> and to \<open>add\<close>, which clean it again.
  A rejected \<open>get\<close>, or a throw in the callback, rejects the promise and nothing is
  written.
\<close>

definition update :: "platform \<Rightarrow> hash \<Rightarrow> string option \<Rightarrow> jsval \<Rightarrow> error + hash" where
  "update P h path data =
     (let key = cleanPath P path
      in case get P h (Some key) of
           Inl e \<Rightarrow> Inl e
         | Inr item \<Rightarrow>
             (case Object_assign item data of
                Inl e \<Rightarrow> Inl e
              | Inr merged \<Rightarrow> Inr (add P h (Some key) merged)))"

text \<open>
  \<open>getAll\<close>: every value of the hash expanded in place, in the order of the keys; the
  first value that fails to expand rejects the promise.
\<close>

fun expandRoutes :: "platform \<Rightarrow> (string \<times> string) list \<Rightarrow> error + (string \<times> jsval) list" where
  "expandRoutes P [] = Inr []"
| "expandRoutes P ((key, v) # routes) =
     (case expand P (Some v) of
        Inl e \<Rightarrow> Inl e
      | Inr x \<Rightarrow>
          (case expandRoutes P routes of
             Inl e \<Rightarrow> Inl e
           | Inr rest \<Rightarrow> Inr ((key, x) # rest)))"

definition getAll :: "platform \<Rightarrow> hash \<Rightarrow> error + (string \<times> jsval) list" where
  "getAll P h = expandRoutes P (hgetall h)"

text \<open>The object \<open>{ prefix, data }\<close> that \<open>getTarget\<close> resolves to.\<close>

record target =
  prefix :: string
  data :: jsval

text \<open>
  \<open>getTarget\<close>: \<open>None\<close> is \<open>undefined\<close>. \<open>route in registeredRoutes\<close> is read on the
  own keys only: every candidate holds a slash (lemma \<open>getKeyPaths_slash\<close>), and no
  property of \<open>Object.prototype\<close> does.
\<close>

definition getTarget :: "platform \<Rightarrow> hash \<Rightarrow> string option \<Rightarrow> error + target option" where
  "getTarget P h path =
     (let paths = getKeyPaths P (Some (cleanPath P path))
      in case getAll P h of
           Inl e \<Rightarrow> Inl e
         | Inr registeredRoutes \<Rightarrow>
             (let validRoutes =
                    filter (\<lambda>route. map_of registeredRoutes route \<noteq> None
                                     \<and> truthy (lookup registeredRoutes route)) paths
              in case validRoutes of
                   [] \<Rightarrow> Inr None
                 | first # _ \<Rightarrow>
                     Inr (Some \<lparr>prefix = first, data = lookup registeredRoutes first\<rparr>)))"

text \<open>
  \<open>clear\<close>: one \<open>hdel\<close> queued for every key that passes the filter, then the queue
  executed. The result is the hash afterwards.
\<close>

definition clear :: "bool \<Rightarrow> hash \<Rightarrow> hash" where
  "clear keepRoot h =
     (let keys = hkeys h;
          multi = map HDEL (filter (\<lambda>key. keepRoot \<and> key \<noteq> pathSep) keys)
      in exec multi h)"

section \<open>The ancestors of a key, in the specification's words\<close>

text \<open>
  The specification describes a key by its ordered segments and its ancestors as the
  keys of every prefix of the segments, from the full path down to the empty one, which
  is the root. \<open>pathOf\<close> is the key of a list of segments and \<open>ancestors\<close> that
  sequence, most specific first. They are written from the specification, to compare
  \<open>getKeyPaths\<close> with.
\<close>

definition pathOf :: "string list \<Rightarrow> string" where
  "pathOf segs = (if segs = [] then ''/'' else concat (map ((@) ''/'') segs))"


section \<open>Instances for the closed examples\<close>

text \<open>
  A sentinel module that recognises the \<open>sentinel://\<close> prefix and returns the rest of
  the string, and a platform on two routes: \<open>demoRouteA\<close> has a target only,
  \<open>demoRouteB\<close> a target and a \<open>last_activity\<close> date. \<open>demoNormalizeUrl\<close> removes
  the trailing slash of \<open>/foo/\<close> and, trimming the blank first, of the blank followed
  by a slash, which leaves the empty string there (as \<open>normalize-url\<close> does);
  \<open>demoPlatform\<close> parses and prints the two JSON texts of the routes and reads the
  one ISO date. They stand in for the functions of
  section \<open>What the module takes from outside\<close> where a closed example needs values.
\<close>

definition demoIsSentinel :: "string \<Rightarrow> bool" where
  "demoIsSentinel url = startsWith url ''sentinel://''"

definition demoSentinelParseURL :: "string \<Rightarrow> string" where
  "demoSentinelParseURL url = drop 11 url"

definition demoNormalizeUrl :: "string \<Rightarrow> string" where
  "demoNormalizeUrl s = (if s = ''/foo/'' then ''/foo'' else if s = '' /'' then [] else s)"

definition demoRouteA :: jsval where
  "demoRouteA = Obj [(''target'', Str ''http://a:8000'')]"

definition demoTextA :: string where
  \<open>demoTextA = ''{"target":"http://a:8000"}''\<close>

definition demoRouteB :: jsval where
  "demoRouteB =
     Obj [(''target'', Str ''http://b:8000''), (''last_activity'', Date (Some 1500000000000))]"

definition demoRouteB_parsed :: jsval where
  "demoRouteB_parsed =
     Obj [(''target'', Str ''http://b:8000''), (''last_activity'', Str ''2017-07-14T02:40:00.000Z'')]"

definition demoTextB :: string where
  \<open>demoTextB = ''{"target":"http://b:8000","last_activity":"2017-07-14T02:40:00.000Z"}''\<close>

definition demoPlatform :: platform where
  "demoPlatform =
     \<lparr>normalizeUrl = demoNormalizeUrl,
      JSON_parse = (\<lambda>s. if s = demoTextA then Inr demoRouteA
                         else if s = demoTextB then Inr demoRouteB_parsed
                         else Inl SyntaxError),
      JSON_stringify = (\<lambda>v. if v = demoRouteA then demoTextA
                             else if v = demoRouteB then demoTextB
                             else ''null''),
      newDate = (\<lambda>v. if v = Str ''2017-07-14T02:40:00.000Z'' then Some 1500000000000 else None)\<rparr>"


section \<open>Facts about the string functions\<close>

lemma startsWith_Nil [simp]: "startsWith s []"
  by (simp add: startsWith_def)

lemma startsWith_append [simp]: "startsWith (pre @ s) pre"
  by (simp add: startsWith_def)

lemma startsWith_single: "startsWith s [c] \<longleftrightarrow> (\<exists>t. s = c # t)"
  by (cases s) (auto simp: startsWith_def)

lemma includes_single: "includes_js s [c] \<longleftrightarrow> c \<in> set s"
  by (induction s) (auto simp: startsWith_single)

lemma split_from_not_Nil: "split_from sep acc s \<noteq> []"
  by (induction sep acc s rule: split_from.induct) auto

text \<open>Without an occurrence of the separator the whole string is the one piece.\<close>

lemma split_from_absent:
  "sep \<noteq> [] \<Longrightarrow> \<not> includes_js s sep \<Longrightarrow> split_from sep acc s = [acc @ s]"
  by (induction sep acc s rule: split_from.induct) auto

text \<open>With an occurrence there are at least two pieces, so a destructuring finds both.\<close>

lemma split_includes:
  "sep \<noteq> [] \<Longrightarrow> includes_js s sep \<Longrightarrow> \<exists>a b rest. split_from sep acc s = a # b # rest"
proof (induction sep acc s rule: split_from.induct)
  case (1 sep acc)
  then show ?case by simp
next
  case (2 sep acc c cs)
  show ?case
  proof (cases "startsWith (c # cs) sep")
    case True
    obtain b rest where "split_from sep [] (drop (length sep) (c # cs)) = b # rest"
      using split_from_not_Nil by (meson list.exhaust)
    with True 2(3) show ?thesis by simp
  next
    case False
    with 2 show ?thesis by simp
  qed
qed

lemma split_from_marker_first:
  "sep \<noteq> [] \<Longrightarrow> split_from sep [] (sep @ rest) = [] # split_from sep [] rest"
  by (cases sep) (simp_all add: startsWith_def)

lemma split_from_char_cut:
  "c \<notin> set a \<Longrightarrow> split_from [c] acc (a @ c # b) = (acc @ a) # split_from [c] [] b"
  by (induction a arbitrary: acc) (auto simp: startsWith_def)


section \<open>Cluster connection strings\<close>






text \<open>
  \<open>parseURL\<close> never raises on a string that \<open>isCluster\<close> accepts: both
  destructurings find their two pieces.
\<close>

lemma parseURL_total:
  assumes "isCluster url"
  shows "\<exists>c. parseURL url = Inr c"
proof -
  obtain a url1 rest where s: "split_js url ''cluster://'' = a # url1 # rest"
    using assms split_includes[of "''cluster://''" url "[]"]
    by (auto simp: isCluster_def split_js_def)
  show ?thesis
  proof (cases "includes_js url1 ''@''")
    case True
    then obtain p hh r where "split_js url1 ''@'' = p # hh # r"
      using split_includes[of "''@''" url1 "[]"] by (auto simp: split_js_def)
    with s True show ?thesis by (simp add: parseURL_def)
  next
    case False
    with s show ?thesis by (simp add: parseURL_def)
  qed
qed

text \<open>
  C5, as the code has it. A cluster string \<open>cluster://p@\<close>, whose credential prefix
  \<open>p\<close> is followed by an empty host remainder, does not fail: the empty remainder is
  skipped like every empty segment, and the result is the password \<open>p\<close> (without a
  leading colon) with an empty list of nodes. Here \<open>p\<close> holds no \<open>@\<close> and no further
  cluster marker arises.
\<close>

theorem parseURL_empty_host_tolerated:
  assumes "CHR ''@'' \<notin> set p" and "\<not> includes_js (p @ ''@'') ''cluster://''"
  shows "parseURL (''cluster://'' @ p @ ''@'') =
     Inr \<lparr>hosts = [], password = Some (if startsWith p '':'' then drop 1 p else p)\<rparr>"
proof -
  have 1: "split_js (''cluster://'' @ p @ ''@'') ''cluster://'' = [[], p @ ''@'']"
    using split_from_marker_first[of "''cluster://''" "p @ ''@''"]
      split_from_absent[OF _ assms(2), of "[]"]
    by (simp add: split_js_def)
  have 2: "split_js (p @ ''@'') ''@'' = [p, []]"
    using split_from_char_cut[OF assms(1), of "[]" "[]"] by (simp add: split_js_def)
  have 3: "includes_js (p @ ''@'') ''@''" by (simp add: includes_single)
  have 4: "hostsOf [] = []" by (simp add: hostsOf_def split_js_def)
  show ?thesis unfolding parseURL_def 1 by (simp add: 2 3 4)
qed

theorem parseURL_empty_host_tolerated_witness:
  "parseURL (''cluster://'' @ '':secret'' @ ''@'') = Inr \<lparr>hosts = [], password = Some ''secret''\<rparr>"
proof -
  have a: "CHR ''@'' \<notin> set '':secret''" by simp
  have b: "\<not> includes_js ('':secret'' @ ''@'') ''cluster://''" by code_simp
  have c: "startsWith '':secret'' '':''" by code_simp
  show ?thesis using parseURL_empty_host_tolerated[OF a b] c by simp
qed

text \<open>
  C5, as the claim states it, fails: on \<open>cluster://secret@\<close> the result is not an
  error but a descriptor with the password and no node.
\<close>

theorem parseURL_empty_host_counterexample:
  "parseURL ''cluster://secret@'' = Inr \<lparr>hosts = [], password = Some ''secret''\<rparr>"
  by code_simp

text \<open>
  The earlier variant does not fail on that string either: it returns one node with
  the password and an empty host.
\<close>

lemma parseURL_legacy_empty_host:
  "parseURL_legacy ''cluster://secret@'' =
     Inr [\<lparr>node_password = Some ''secret'', node_host = [], node_port = None\<rparr>]"
  by code_simp



section \<open>Choosing the topology\<close>

text \<open>
  C7, as the code has it. The connection string is classified in the fixed order
  cluster, sentinel, standalone. It is a cluster string exactly when it contains the
  marker \<open>cluster://\<close> anywhere (and \<open>parseURL\<close> then succeeds); otherwise it is a
  sentinel string when the sentinel module accepts it; otherwise it is returned
  unmodified as the standalone URI.
\<close>

theorem getRedisConfiguration_classification:
  assumes "getRedisUri redisURI envURI = Inr url"
  shows "(includes_js url ''cluster://'' \<longrightarrow>
            (\<exists>c. parseURL url = Inr c \<and>
                 getRedisConfiguration isSentinel sentinelParseURL redisURI envURI
                   = Inr (Cluster c))) \<and>
         (\<not> includes_js url ''cluster://'' \<and> isSentinel url \<longrightarrow>
            getRedisConfiguration isSentinel sentinelParseURL redisURI envURI
              = Inr (Sentinel (sentinelParseURL url))) \<and>
         (\<not> includes_js url ''cluster://'' \<and> \<not> isSentinel url \<longrightarrow>
            getRedisConfiguration isSentinel sentinelParseURL redisURI envURI
              = Inr (Standalone url))"
  using assms parseURL_total[of url]
  by (auto simp: getRedisConfiguration_def isCluster_def)

theorem getRedisConfiguration_classification_witness:
  "getRedisConfiguration demoIsSentinel demoSentinelParseURL None (Some ''cluster://h1:7000'')
     = Inr (Cluster \<lparr>hosts = [\<lparr>host = ''h1'', port = Some (Integer 7000)\<rparr>], password = None\<rparr>)
   \<and> getRedisConfiguration demoIsSentinel demoSentinelParseURL None (Some ''sentinel://s1'')
     = Inr (Sentinel ''s1'')
   \<and> getRedisConfiguration demoIsSentinel demoSentinelParseURL None (Some ''redis://h:6379'')
     = Inr (Standalone ''redis://h:6379'')"
proof -
  have u1: "getRedisUri None (Some ''cluster://h1:7000'') = Inr ''cluster://h1:7000''"
    by (simp add: getRedisUri_def)
  have u2: "getRedisUri None (Some ''redis://h:6379'') = Inr ''redis://h:6379''"
    by (simp add: getRedisUri_def)
  have u3: "getRedisUri None (Some ''sentinel://s1'') = Inr ''sentinel://s1''"
    by (simp add: getRedisUri_def)
  have p: "parseURL ''cluster://h1:7000'' =
      Inr \<lparr>hosts = [\<lparr>host = ''h1'', port = Some (Integer 7000)\<rparr>], password = None\<rparr>"
    by code_simp
  have i1: "includes_js ''cluster://h1:7000'' ''cluster://''" by code_simp
  have i2: "\<not> includes_js ''redis://h:6379'' ''cluster://''" by code_simp
  have i3: "\<not> demoIsSentinel ''redis://h:6379''" by code_simp
  have i4: "\<not> includes_js ''sentinel://s1'' ''cluster://''" by code_simp
  have i5: "demoIsSentinel ''sentinel://s1''" by code_simp
  have i6: "demoSentinelParseURL ''sentinel://s1'' = ''s1''" by code_simp
  have "\<exists>c. parseURL ''cluster://h1:7000'' = Inr c \<and>
      getRedisConfiguration demoIsSentinel demoSentinelParseURL None (Some ''cluster://h1:7000'')
        = Inr (Cluster c)"
    using getRedisConfiguration_classification[OF u1, of demoIsSentinel demoSentinelParseURL] i1
    by blast
  then have r1:
    "getRedisConfiguration demoIsSentinel demoSentinelParseURL None (Some ''cluster://h1:7000'')
     = Inr (Cluster \<lparr>hosts = [\<lparr>host = ''h1'', port = Some (Integer 7000)\<rparr>], password = None\<rparr>)"
    unfolding p by blast
  have r2: "getRedisConfiguration demoIsSentinel demoSentinelParseURL None (Some ''redis://h:6379'')
     = Inr (Standalone ''redis://h:6379'')"
    using getRedisConfiguration_classification[OF u2, of demoIsSentinel demoSentinelParseURL] i2 i3
    by blast
  have r3: "getRedisConfiguration demoIsSentinel demoSentinelParseURL None (Some ''sentinel://s1'')
     = Inr (Sentinel ''s1'')"
    using getRedisConfiguration_classification[OF u3, of demoIsSentinel demoSentinelParseURL] i4 i5
    unfolding i6 by blast
  show ?thesis using r1 r2 r3 by blast
qed

text \<open>
  C7, as the claim states it, fails: \<open>redis://cluster://h1\<close> does not begin with the
  cluster marker and is classified as a cluster string all the same.
\<close>

theorem getRedisConfiguration_prefix_counterexample:
  "\<not> startsWith ''redis://cluster://h1'' ''cluster://'' \<and>
   getRedisConfiguration demoIsSentinel demoSentinelParseURL (Some ''redis://cluster://h1'') None
     = Inr (Cluster \<lparr>hosts = [\<lparr>host = ''h1'', port = None\<rparr>], password = None\<rparr>)"
  by code_simp

section \<open>Path keys\<close>

lemma cleanPath_root [simp]:
  "cleanPath P (Some pathSep) = pathSep"
  "cleanPath P None = pathSep"
  "cleanPath P (Some []) = pathSep"
  by (simp_all add: cleanPath_def)





text \<open>
  Where \<open>normalizeUrl\<close> does return the empty string, \<open>cleanPath\<close> is not idempotent:
  the second application turns the empty key into the root key.
\<close>

lemma cleanPath_empty_not_idempotent:
  assumes "s \<noteq> []" "s \<noteq> pathSep" "normalizeUrl P s = []"
  shows "cleanPath P (Some (cleanPath P (Some s))) \<noteq> cleanPath P (Some s)"
  using assms by (simp add: cleanPath_def pathSep_def)

lemma split_root: "split_js pathSep pathSep = [[], []]"
  by (simp add: split_js_def pathSep_def startsWith_def)

text \<open>
  C4, on the root key. \<open>'/'.split('/')\<close> has two empty parts, and each of them maps
  to \<open>/\<close>: the ancestors of the root are the two-element sequence \<open>["/", "/"]\<close>, not
  the single-element one. No property of \<open>normalizeUrl\<close> is involved.
\<close>

theorem getKeyPaths_root: "getKeyPaths P (Some ''/'') = [''/'', ''/'']"
proof -
  have c: "cleanPath P (Some ''/'') = pathSep"
    using cleanPath_root(1)[of P] by (simp add: pathSep_def)
  show ?thesis unfolding getKeyPaths_def c split_root
    by (simp add: enumerate_eq_zip pathSep_def)
qed

text \<open>The other half of C4 holds: the example of the source's comment.\<close>

lemma getKeyPaths_example:
  assumes "normalizeUrl P ''/foo/bar/xyz'' = ''/foo/bar/xyz''"
  shows "getKeyPaths P (Some ''/foo/bar/xyz'') = [''/foo/bar/xyz'', ''/foo/bar'', ''/foo'', ''/'']"
proof -
  have c: "cleanPath P (Some ''/foo/bar/xyz'') = ''/foo/bar/xyz''"
    using assms by (simp add: cleanPath_def pathSep_def)
  have s: "split_js ''/foo/bar/xyz'' pathSep = [[], ''foo'', ''bar'', ''xyz'']"
    unfolding pathSep_def by code_simp
  have e: "List.enumerate 0 [[], ''foo'', ''bar'', ''xyz'']
             = [(0, []), (1, ''foo''), (2, ''bar''), (3, ''xyz'')]"
    by code_simp
  show ?thesis unfolding getKeyPaths_def c s Let_def e
    by (simp add: pathSep_def)
qed

section \<open>The routes in the hash\<close>

lemma fold_hdel_map_of:
  "map_of (fold run (map HDEL ks) h) k = (if k \<in> set ks then None else map_of h k)"
  by (induction ks arbitrary: h) (auto simp: hdel_def delete_conv')

text \<open>With \<open>keepRoot\<close> true, \<open>clear\<close> leaves the root key and removes every other.\<close>

lemma clear_True: "hget (clear True h) k = (if k = pathSep then hget h k else None)"
proof -
  have "k \<noteq> pathSep \<Longrightarrow> map_of h k \<noteq> None \<Longrightarrow> k \<in> fst ` set h"
    by (metis map_of_eq_None_iff)
  then show ?thesis
    by (auto simp: clear_def exec_def hget_def hkeys_def fold_hdel_map_of map_of_eq_None_iff)
qed

text \<open>With \<open>keepRoot\<close> false the filter rejects every key and nothing is deleted.\<close>

lemma clear_False: "clear False h = h"
  by (simp add: clear_def exec_def)

text \<open>
  C2, with \<open>keepRoot\<close> false. On a hash with the root and one more route, \<open>clear\<close>
  removes neither: the hash is unchanged.
\<close>

theorem clear_keepRoot_false_deletes_nothing:
  "clear False [(''/'', ''r''), (''/foo'', ''a'')] = [(''/'', ''r''), (''/foo'', ''a'')]"
  by (simp add: clear_def exec_def)

text \<open>
  C10. \<open>add\<close> and \<open>remove\<close> on a path leave \<open>get\<close> of every path with another
  key as it was.
\<close>

theorem add_remove_frame:
  assumes "cleanPath P p \<noteq> cleanPath P q"
  shows "get P (add P h p r) q = get P h q \<and> get P (remove P h p) q = get P h q"
  using assms
  by (simp add: get_def add_def remove_def hget_def hset_def hdel_def update_conv' delete_conv')

lemma demo_fields:
  "JSON_parse demoPlatform demoTextA = Inr demoRouteA"
  "JSON_parse demoPlatform demoTextB = Inr demoRouteB_parsed"
  "JSON_stringify demoPlatform demoRouteA = demoTextA"
  "JSON_stringify demoPlatform demoRouteB = demoTextB"
  "newDate demoPlatform (Str ''2017-07-14T02:40:00.000Z'') = Some 1500000000000"
  "demoTextA \<noteq> []" "demoTextB \<noteq> []"
  by (simp_all add: demoPlatform_def demoTextA_def demoTextB_def demoRouteA_def demoRouteB_def)

lemma demo_cleanPath_foo: "cleanPath demoPlatform (Some ''/foo'') = ''/foo''"
  by (simp add: cleanPath_def pathSep_def demoPlatform_def demoNormalizeUrl_def)

lemma demo_expand_A: "expand demoPlatform (Some demoTextA) = Inr demoRouteA"
proof -
  have la: "\<not> truthy (lookup [(''target'', Str ''http://a:8000'')] ''last_activity'')"
    by (simp add: lookup_def)
  show ?thesis using demo_fields(1,6) la
    by (simp add: expand_def expandLastActivity_def demoRouteA_def)
qed

lemma demo_expand_B: "expand demoPlatform (Some demoTextB) = Inr demoRouteB"
proof -
  have la: "lookup [(''target'', Str ''http://b:8000''),
                    (''last_activity'', Str ''2017-07-14T02:40:00.000Z'')] ''last_activity''
      = Str ''2017-07-14T02:40:00.000Z''"
    by (simp add: lookup_def)
  show ?thesis using demo_fields(2,5,7)
    by (simp add: expand_def expandLastActivity_def demoRouteB_parsed_def la assignProps_def
        demoRouteB_def)
qed

theorem add_remove_frame_witness:
  "get demoPlatform (add demoPlatform [(''/bar'', demoTextB)] (Some ''/foo'') demoRouteA)
       (Some ''/bar'')
     = Inr demoRouteB
   \<and> get demoPlatform
         (remove demoPlatform [(''/bar'', demoTextB), (''/foo'', demoTextA)] (Some ''/foo''))
         (Some ''/bar'')
     = Inr demoRouteB"
proof -
  have c1: "cleanPath demoPlatform (Some ''/bar'') = ''/bar''"
    by (simp add: cleanPath_def pathSep_def demoPlatform_def demoNormalizeUrl_def)
  have ne: "cleanPath demoPlatform (Some ''/foo'') \<noteq> cleanPath demoPlatform (Some ''/bar'')"
    unfolding c1 demo_cleanPath_foo by simp
  have g1: "get demoPlatform [(''/bar'', demoTextB)] (Some ''/bar'') = Inr demoRouteB"
    unfolding get_def c1 Let_def using demo_expand_B by (simp add: hget_def)
  have g2: "get demoPlatform [(''/bar'', demoTextB), (''/foo'', demoTextA)] (Some ''/bar'')
              = Inr demoRouteB"
    unfolding get_def c1 Let_def using demo_expand_B by (simp add: hget_def)
  show ?thesis
    using add_remove_frame[OF ne, of "[(''/bar'', demoTextB)]" demoRouteA]
      add_remove_frame[OF ne, of "[(''/bar'', demoTextB), (''/foo'', demoTextA)]" demoRouteA]
    unfolding g1 g2 by blast
qed

section \<open>Storing and reading a route\<close>

lemma hget_hset_same: "hget (hset h k v) k = Some (toArg v)"
  by (simp add: hget_def hset_def update_conv')

lemma hget_hdel_same: "hget (hdel h k) k = None"
  by (simp add: hget_def hdel_def delete_conv')

lemma get_add_same: "get P (add P h p r) p = expand P (Some (toArg (scrub P r)))"
  by (simp add: get_def add_def hget_hset_same)

lemma get_remove_same: "get P (remove P h p) p = Inr Undefined"
  by (simp add: get_def remove_def hget_hdel_same expand_def)

lemma expand_scrub_plain:
  assumes "\<not> truthy (lookup fs ''last_activity'')"
      and "JSON_stringify P (Obj fs) \<noteq> []"
      and "JSON_parse P (JSON_stringify P (Obj fs)) = Inr (Obj fs)"
  shows "expand P (Some (toArg (scrub P (Obj fs)))) = Inr (Obj fs)"
  using assms by (simp add: expand_def scrub_def toArg_def expandLastActivity_def)

lemma assignProps_single: "assignProps fs [(k, v)] = AList.update k v fs"
  by (simp add: assignProps_def)

lemma expand_scrub_dated:
  assumes "map_of fs ''last_activity'' = Some (Date t)"
      and "isoText \<noteq> []" and "newDate P (Str isoText) = t"
      and "JSON_stringify P (Obj fs) \<noteq> []"
      and "JSON_parse P (JSON_stringify P (Obj fs))
             = Inr (Obj (AList.update ''last_activity'' (Str isoText) fs))"
  shows "expand P (Some (toArg (scrub P (Obj fs)))) = Inr (Obj fs)"
proof -
  have l: "lookup (AList.update ''last_activity'' (Str isoText) fs) ''last_activity'' = Str isoText"
    by (simp add: lookup_def update_conv')
  have u: "AList.update ''last_activity'' (Date t) fs = fs"
    using assms(1) by (simp add: update_triv)
  show ?thesis
    using assms(2-5) by (simp add: expand_def scrub_def toArg_def expandLastActivity_def l assignProps_single u)
qed

text \<open>
  C9. A route \<open>Obj fs\<close> that is added is what \<open>get\<close> of the same path returns, when
  JSON printing and parsing return the route: as it is when it has no (truthy)
  \<open>last_activity\<close>, and with the date \<open>t\<close> printed as the ISO text \<open>isoText\<close> that
  \<open>new Date\<close> reads back as \<open>t\<close> when \<open>last_activity\<close> is that date. After \<open>remove\<close>,
  \<open>get\<close> returns \<open>undefined\<close>, and so it does, with no error, for a key that the
  hash does not hold.
\<close>

theorem add_get_remove:
  "(\<not> truthy (lookup fs ''last_activity'')
      \<and> JSON_stringify P (Obj fs) \<noteq> []
      \<and> JSON_parse P (JSON_stringify P (Obj fs)) = Inr (Obj fs)
     \<longrightarrow> get P (add P h p (Obj fs)) p = Inr (Obj fs))
   \<and> (map_of fs ''last_activity'' = Some (Date t)
      \<and> isoText \<noteq> [] \<and> newDate P (Str isoText) = t
      \<and> JSON_stringify P (Obj fs) \<noteq> []
      \<and> JSON_parse P (JSON_stringify P (Obj fs))
            = Inr (Obj (AList.update ''last_activity'' (Str isoText) fs))
     \<longrightarrow> get P (add P h p (Obj fs)) p = Inr (Obj fs))
   \<and> get P (remove P h p) p = Inr Undefined
   \<and> (hget h (cleanPath P p) = None \<longrightarrow> get P h p = Inr Undefined)"
proof -
  have 4: "hget h (cleanPath P p) = None \<longrightarrow> get P h p = Inr Undefined"
    by (simp add: get_def expand_def)
  show ?thesis
    using expand_scrub_plain[of fs P] expand_scrub_dated[of fs t isoText P] 4
    unfolding get_add_same get_remove_same by blast
qed

theorem add_get_remove_witness:
  "get demoPlatform (add demoPlatform [] (Some ''/foo/'') demoRouteA) (Some ''/foo/'') = Inr demoRouteA
   \<and> get demoPlatform (add demoPlatform [] (Some ''/foo/'') demoRouteB) (Some ''/foo/'') = Inr demoRouteB
   \<and> get demoPlatform (remove demoPlatform [(''/foo'', demoTextA)] (Some ''/foo/'')) (Some ''/foo/'') = Inr Undefined
   \<and> get demoPlatform [] (Some ''/foo/'') = Inr Undefined"
proof -
  let ?fa = "[(''target'', Str ''http://a:8000'')]"
  let ?fb = "[(''target'', Str ''http://b:8000''), (''last_activity'', Date (Some 1500000000000))]"
  have a1: "\<not> truthy (lookup ?fa ''last_activity'')" by (simp add: lookup_def)
  have a2: "JSON_stringify demoPlatform (Obj ?fa) \<noteq> []"
    using demo_fields(3,6) by (simp add: demoRouteA_def)
  have a3: "JSON_parse demoPlatform (JSON_stringify demoPlatform (Obj ?fa)) = Inr (Obj ?fa)"
    using demo_fields(1,3) by (simp add: demoRouteA_def)
  have b1: "map_of ?fb ''last_activity'' = Some (Date (Some 1500000000000))" by simp
  have b2: "''2017-07-14T02:40:00.000Z'' \<noteq> []" by simp
  have b4: "JSON_stringify demoPlatform (Obj ?fb) \<noteq> []"
    using demo_fields(4,7) by (simp add: demoRouteB_def)
  have b5: "JSON_parse demoPlatform (JSON_stringify demoPlatform (Obj ?fb))
      = Inr (Obj (AList.update ''last_activity'' (Str ''2017-07-14T02:40:00.000Z'') ?fb))"
    using demo_fields(2,4) by (simp add: demoRouteB_def demoRouteB_parsed_def)
  have e: "hget [] (cleanPath demoPlatform (Some ''/foo/'')) = None" by (simp add: hget_def)
  note t = add_get_remove[where fs = ?fa and P = demoPlatform and h = "[]" and p = "Some ''/foo/''"]
  note t2 = add_get_remove[where fs = ?fb and P = demoPlatform and h = "[]" and p = "Some ''/foo/''"
      and t = "Some 1500000000000" and isoText = "''2017-07-14T02:40:00.000Z''"]
  note t3 = add_get_remove[where P = demoPlatform and h = "[(''/foo'', demoTextA)]" and p = "Some ''/foo/''"]
  have r1: "get demoPlatform (add demoPlatform [] (Some ''/foo/'') (Obj ?fa)) (Some ''/foo/'') = Inr (Obj ?fa)"
    using t a1 a2 a3 by blast
  have r2: "get demoPlatform (add demoPlatform [] (Some ''/foo/'') (Obj ?fb)) (Some ''/foo/'') = Inr (Obj ?fb)"
    using t2 b1 b2 demo_fields(5) b4 b5 by blast
  have r3: "get demoPlatform (remove demoPlatform [(''/foo'', demoTextA)] (Some ''/foo/'')) (Some ''/foo/'') = Inr Undefined"
    using t3 by blast
  have r4: "get demoPlatform [] (Some ''/foo/'') = Inr Undefined"
    using t e by blast
  show ?thesis using r1 r2 r3 r4 unfolding demoRouteA_def demoRouteB_def by blast
qed

section \<open>Resolving a path\<close>



lemma getKeyPaths_slash: "k \<in> set (getKeyPaths P p) \<Longrightarrow> CHR ''/'' \<in> set k"
  by (auto simp: getKeyPaths_def Let_def)

lemma getTarget_none:
  assumes "getAll P h = Inr routes"
      and "\<forall>k\<in>set (getKeyPaths P (Some (cleanPath P p))).
              \<not> (map_of routes k \<noteq> None \<and> truthy (lookup routes k))"
  shows "getTarget P h p = Inr None"
proof -
  have "filter (\<lambda>route. map_of routes route \<noteq> None \<and> truthy (lookup routes route))
          (getKeyPaths P (Some (cleanPath P p))) = []"
    using assms(2) by (simp add: filter_empty_conv)
  then show ?thesis using assms(1) by (simp add: getTarget_def)
qed




text \<open>A value that fails to expand fails the whole resolution, whatever the path.\<close>

lemma getTarget_error: "getAll P h = Inl e \<Longrightarrow> getTarget P h p = Inl e"
  by (simp add: getTarget_def)


lemma append_single: "(@) [c] = (#) c"
  by (rule ext) simp








lemma pathOf_single_empty: "pathOf [[]] = pathSep"
  by (simp add: pathOf_def pathSep_def)


lemma split_from_pieces:
  "split_from [c] acc s = x # xs \<Longrightarrow>
     acc @ s = x @ concat (map ((#) c) xs) \<and> (\<forall>y\<in>set xs. c \<notin> set y)
     \<and> (c \<notin> set acc \<longrightarrow> c \<notin> set x)"
proof (induction "[c]" acc s arbitrary: x xs rule: split_from.induct)
  case (1 acc)
  then show ?case by simp
next
  case (2 acc d ds)
  show ?case
  proof (cases "d = c")
    case True
    then have eq: "split_from [c] acc (d # ds) = acc # split_from [c] [] ds"
      by (simp add: startsWith_def)
    obtain y ys where r: "split_from [c] [] ds = y # ys"
      using split_from_not_Nil by (meson list.exhaust)
    have sw: "[c] \<noteq> [] \<and> startsWith (d # ds) [c]" using True by (simp add: startsWith_def)
    have ih: "[] @ ds = y @ concat (map ((#) c) ys) \<and> (\<forall>z\<in>set ys. c \<notin> set z)
        \<and> (c \<notin> set [] \<longrightarrow> c \<notin> set y)"
      using "2.hyps"(1)[OF sw, of y ys] r by simp
    from "2.prems" eq r have "x = acc" "xs = y # ys" by simp_all
    then show ?thesis using ih True by simp
  next
    case False
    then have nsw: "\<not> ([c] \<noteq> [] \<and> startsWith (d # ds) [c])" by (simp add: startsWith_def)
    have eq: "split_from [c] acc (d # ds) = split_from [c] (acc @ [d]) ds"
      using False by (simp add: startsWith_def)
    have ih: "(acc @ [d]) @ ds = x @ concat (map ((#) c) xs) \<and> (\<forall>y\<in>set xs. c \<notin> set y)
        \<and> (c \<notin> set (acc @ [d]) \<longrightarrow> c \<notin> set x)"
      using "2.hyps"(2)[OF nsw, of x xs] "2.prems" eq by simp
    then show ?thesis using False by auto
  qed
qed

text \<open>
  Every key that begins with a slash is the key of segments that hold no slash, so the
  theorem below speaks of every such key; the root key is also that of no segment.
\<close>

lemma absolute_key_segments:
  assumes "startsWith key ''/''"
  shows "\<exists>segs. key = pathOf segs \<and> segs \<noteq> [] \<and> (\<forall>s\<in>set segs. CHR ''/'' \<notin> set s)"
proof -
  obtain rest where k: "key = CHR ''/'' # rest"
    using assms by (auto simp: startsWith_single)
  obtain y ys where r: "split_from ''/'' [] rest = y # ys"
    using split_from_not_Nil by (meson list.exhaust)
  have p: "[] @ rest = y @ concat (map ((#) CHR ''/'') ys) \<and> (\<forall>z\<in>set ys. CHR ''/'' \<notin> set z)
      \<and> (CHR ''/'' \<notin> set [] \<longrightarrow> CHR ''/'' \<notin> set y)"
    using r by (rule split_from_pieces)
  have "key = pathOf (y # ys)"
    using k p by (simp add: pathOf_def append_single)
  moreover have "\<forall>s\<in>set (y # ys). CHR ''/'' \<notin> set s" using p by simp
  ultimately show ?thesis by blast
qed




section \<open>Updating a route\<close>

lemma assignProps_Cons: "assignProps fs ((k, v) # ds) = assignProps (AList.update k v fs) ds"
  by (simp add: assignProps_def)

lemma assignProps_wins:
  assumes "distinct (map fst ds)"
  shows "map_of (assignProps fs ds) x = (case map_of ds x of Some v \<Rightarrow> Some v | None \<Rightarrow> map_of fs x)"
  using assms
proof (induction ds arbitrary: fs)
  case Nil
  then show ?case by (simp add: assignProps_def)
next
  case (Cons d ds)
  obtain k v where d: "d = (k, v)" by (cases d)
  have fresh: "map_of ds k = None"
    using Cons.prems d by (simp add: map_of_eq_None_iff)
  have ih: "map_of (assignProps (AList.update k v fs) ds) x
      = (case map_of ds x of Some w \<Rightarrow> Some w | None \<Rightarrow> map_of (AList.update k v fs) x)"
    using Cons.IH[of "AList.update k v fs"] Cons.prems by simp
  show ?case
    unfolding d assignProps_Cons ih using fresh
    by (simp add: update_conv' split: option.splits)
qed

lemma update_absent:
  assumes "hget h (cleanPath P (Some (cleanPath P p))) = None
           \<or> hget h (cleanPath P (Some (cleanPath P p))) = Some []"
  shows "update P h p d = Inl TypeError"
  using assms by (auto simp: update_def get_def expand_def)

lemma update_object:
  assumes "expand P (hget h (cleanPath P (Some (cleanPath P p)))) = Inr (Obj fs)"
  shows "update P h p d =
     Inr (hset h (cleanPath P (Some (cleanPath P p))) (scrub P (Obj (assignProps fs (ownProps d)))))"
  using assms by (simp add: update_def get_def add_def)

text \<open>
  C3, as the code has it, for a path whose cleaned key stays the same when cleaned
  again. When the hash holds nothing (or the empty string) under the key, the merge
  into \<open>undefined\<close> raises a \<open>TypeError\<close> and nothing is written. When the stored
  value expands to an object, the result is the hash with the merged object written
  back under the same key; in the merge a field of the partial route wins over the
  stored field of the same name, and every other stored field stays.
\<close>

theorem update_merges_or_fails:
  assumes "cleanPath P (Some (cleanPath P p)) = cleanPath P p"
  shows
  "(hget h (cleanPath P p) = None \<or> hget h (cleanPath P p) = Some []
     \<longrightarrow> update P h p d = Inl TypeError)
   \<and> (expand P (hget h (cleanPath P p)) = Inr (Obj fs)
     \<longrightarrow> update P h p d =
          Inr (hset h (cleanPath P p) (scrub P (Obj (assignProps fs (ownProps d))))))
   \<and> (distinct (map fst ds)
     \<longrightarrow> map_of (assignProps fs ds) x
          = (case map_of ds x of Some v \<Rightarrow> Some v | None \<Rightarrow> map_of fs x))"
  using update_absent[of h P p d] update_object[of P h p fs d] assignProps_wins[of ds fs x]
  unfolding assms by blast

theorem update_merges_or_fails_witness:
  "update demoPlatform [] (Some ''/foo'') demoRouteB = Inl TypeError
   \<and> update demoPlatform [(''/foo'', demoTextA)] (Some ''/foo'') demoRouteB
       = Inr [(''/foo'', demoTextB)]
   \<and> map_of (assignProps [(''target'', Str ''http://a:8000'')]
                [(''target'', Str ''http://b:8000''), (''last_activity'', Date (Some 1500000000000))])
        ''target'' = Some (Str ''http://b:8000'')"
proof -
  let ?fs = "[(''target'', Str ''http://a:8000'')]"
  let ?ds = "[(''target'', Str ''http://b:8000''), (''last_activity'', Date (Some 1500000000000))]"
  let ?h = "[(''/foo'', demoTextA)]"
  have k: "cleanPath demoPlatform (Some ''/foo'') = ''/foo''"
    by (rule demo_cleanPath_foo)
  have stable: "cleanPath demoPlatform (Some (cleanPath demoPlatform (Some ''/foo'')))
                  = cleanPath demoPlatform (Some ''/foo'')"
    by (simp add: demo_cleanPath_foo)
  have a: "hget [] (cleanPath demoPlatform (Some ''/foo'')) = None"
    by (simp add: hget_def)
  have r1: "update demoPlatform [] (Some ''/foo'') demoRouteB = Inl TypeError"
    using update_merges_or_fails[OF stable, where h = "[]" and d = demoRouteB] a
    by blast
  have e: "expand demoPlatform (hget ?h (cleanPath demoPlatform (Some ''/foo''))) = Inr (Obj ?fs)"
    unfolding k using demo_expand_A by (simp add: hget_def demoRouteA_def)
  have m: "assignProps ?fs (ownProps demoRouteB) = ?ds"
    by (simp add: assignProps_def demoRouteB_def)
  have s: "scrub demoPlatform (Obj ?ds) = Some demoTextB"
    using demo_fields(4) by (simp add: scrub_def demoRouteB_def)
  have w: "hset ?h ''/foo'' (Some demoTextB) = [(''/foo'', demoTextB)]"
    by (simp add: hset_def toArg_def)
  have r2: "update demoPlatform ?h (Some ''/foo'') demoRouteB = Inr [(''/foo'', demoTextB)]"
    using update_merges_or_fails[OF stable, where h = ?h and d = demoRouteB and fs = ?fs] e
    unfolding m s k w by blast
  have d: "distinct (map fst ?ds)" by simp
  have v: "(case map_of ?ds ''target'' of Some v \<Rightarrow> Some v | None \<Rightarrow> map_of ?fs ''target'')
             = Some (Str ''http://b:8000'')" by simp
  have r3: "map_of (assignProps ?fs ?ds) ''target'' = Some (Str ''http://b:8000'')"
    using update_merges_or_fails[OF stable, where ds = ?ds and fs = ?fs and x = "''target''"] d
    unfolding v by blast
  show ?thesis using r1 r2 r3 by blast
qed

text \<open>
  C3, as the claim states it, fails: on the empty hash the error of \<open>update\<close> is the
  runtime's \<open>TypeError\<close>; the module has no error of its own for a missing record.
\<close>

theorem update_missing_counterexample:
  "update demoPlatform [] (Some ''/foo'') demoRouteA = Inl TypeError"
  by (simp add: update_def get_def hget_def expand_def)

end
